theory Spec2Isabelle
  imports Main "HOL-Library.Sublist"
begin

section \<open>Strings of the host language\<close>

text \<open>
  The module \<^verbatim>\<open>hnl.dynamicimports.mjs\<close> works on JavaScript strings. A string is
  modelled as a \<^typ>\<open>string\<close>, one \<^typ>\<open>char\<close> per code unit, which covers the code
  units below 256 (Latin-1). The library operations the module calls are modelled
  after ECMAScript and the URL standard.
\<close>

text \<open>\<^verbatim>\<open>String.prototype.indexOf\<close>: the position of the first occurrence.\<close>

fun indexOf :: "string \<Rightarrow> string \<Rightarrow> nat option" where
  "indexOf [] pat = (if pat = [] then Some 0 else None)"
| "indexOf (c # cs) pat =
     (if prefix pat (c # cs) then Some 0 else map_option Suc (indexOf cs pat))"

text \<open>\<^verbatim>\<open>String.prototype.includes\<close>.\<close>

definition String_includes :: "string \<Rightarrow> string \<Rightarrow> bool" where
  "String_includes s pat = (indexOf s pat \<noteq> None)"

text \<open>
  \<^verbatim>\<open>GetSubstitution\<close> of ECMAScript for a string pattern (no capture groups, no named
  groups): in the replacement text \<^verbatim>\<open>$$\<close> stands for a dollar sign, \<^verbatim>\<open>$&\<close> for the
  matched text, \<^verbatim>\<open>$`\<close> for the text before the match and \<^verbatim>\<open>$'\<close> for the text after
  it; every other character, also a dollar sign before a digit or \<^verbatim>\<open><\<close>, is copied.
\<close>

fun getSubstitution :: "string \<Rightarrow> string \<Rightarrow> nat \<Rightarrow> string \<Rightarrow> string" where
  "getSubstitution matched str position [] = []"
| "getSubstitution matched str position [c] = [c]"
| "getSubstitution matched str position (c # d # t) =
     (if c = CHR ''$'' \<and> d = CHR ''$'' then CHR ''$'' # getSubstitution matched str position t
      else if c = CHR ''$'' \<and> d = CHR ''&'' then matched @ getSubstitution matched str position t
      else if c = CHR ''$'' \<and> d = CHR 0x60
        then take position str @ getSubstitution matched str position t
      else if c = CHR ''$'' \<and> d = CHR 0x27
        then drop (position + length matched) str @ getSubstitution matched str position t
      else c # getSubstitution matched str position (d # t))"

text \<open>
  \<^verbatim>\<open>String.prototype.replace\<close> with a string pattern and a string replacement: only
  the first occurrence is replaced; a string without the pattern is returned as it is.
\<close>

definition String_replace :: "string \<Rightarrow> string \<Rightarrow> string \<Rightarrow> string" where
  "String_replace s pat rep =
     (case indexOf s pat of
        None \<Rightarrow> s
      | Some pos \<Rightarrow>
          take pos s @ getSubstitution pat s pos rep @ drop (pos + length pat) s)"

subsection \<open>\<^verbatim>\<open>URLSearchParams\<close>\<close>

text \<open>
  \<^verbatim>\<open>URLSearchParams.prototype.toString\<close> is the application/x-www-form-urlencoded
  serialiser: a name or value is encoded in UTF-8, the bytes of ASCII letters and
  digits and of \<^verbatim>\<open>* - . _\<close> stay, a space becomes \<^verbatim>\<open>+\<close>, every other byte becomes
  \<^verbatim>\<open>%XX\<close> in upper-case hexadecimal; the tuples are written \<^verbatim>\<open>name=value\<close> and
  joined by \<^verbatim>\<open>&\<close>.
\<close>

definition urlencoded_keep :: "char \<Rightarrow> bool" where
  "urlencoded_keep c =
     (c \<in> set ''abcdefghijklmnopqrstuvwxyzABCDEFGHIJKLMNOPQRSTUVWXYZ0123456789*-._'')"

definition hexDigit :: "nat \<Rightarrow> char" where
  "hexDigit n = ''0123456789ABCDEF'' ! (n mod 16)"

definition percentEncodeByte :: "nat \<Rightarrow> string" where
  "percentEncodeByte b = [CHR ''%'', hexDigit (b div 16), hexDigit b]"

definition urlencodeChar :: "char \<Rightarrow> string" where
  "urlencodeChar c =
     (let n = (of_char c :: nat) in
      if urlencoded_keep c then [c]
      else if c = CHR '' '' then ''+''
      else if n < 128 then percentEncodeByte n
      else percentEncodeByte (192 + n div 64) @ percentEncodeByte (128 + n mod 64))"

definition urlencode :: "string \<Rightarrow> string" where
  "urlencode s = concat (map urlencodeChar s)"

fun URLSearchParams_toString :: "(string \<times> string) list \<Rightarrow> string" where
  "URLSearchParams_toString [] = []"
| "URLSearchParams_toString [(n, v)] = urlencode n @ ''='' @ urlencode v"
| "URLSearchParams_toString ((n, v) # p # ps) =
     urlencode n @ ''='' @ urlencode v @ ''&'' @ URLSearchParams_toString (p # ps)"

subsection \<open>Objects and the members they inherit\<close>

text \<open>
  An exception of the host language. The importer's own code can only raise
  \<^verbatim>\<open>TypeError\<close>.
\<close>

datatype js_error = TypeError

text \<open>
  The objects the importer reads by a computed key, \<^verbatim>\<open>dynImportPaths\<close> and
  \<^verbatim>\<open>deferredModules\<close>, are plain objects: a read that finds no own property goes on to
  \<^verbatim>\<open>Object.prototype\<close>. These are the property names of the standard
  \<^verbatim>\<open>Object.prototype\<close>; all are functions but \<^verbatim>\<open>__proto__\<close>, an accessor that yields
  \<^verbatim>\<open>Object.prototype\<close> itself. Every one of the values is truthy.
\<close>

definition Object_prototype :: "string list" where
  "Object_prototype =
     [''constructor'', ''__defineGetter__'', ''__defineSetter__'', ''hasOwnProperty'',
      ''__lookupGetter__'', ''__lookupSetter__'', ''isPrototypeOf'', ''propertyIsEnumerable'',
      ''toString'', ''valueOf'', ''__proto__'', ''toLocaleString'']"

text \<open>
  What \<^verbatim>\<open>object[name]\<close> finds: an own property with its value, or the inherited member
  of that name; \<open>None\<close> stands for \<^verbatim>\<open>undefined\<close>.
\<close>

datatype 'a property = Own 'a | Inherited string

definition object_get :: "(string \<times> 'a) list \<Rightarrow> string \<Rightarrow> 'a property option" where
  "object_get obj name =
     (case map_of obj name of
        Some v \<Rightarrow> Some (Own v)
      | None \<Rightarrow> if name \<in> set Object_prototype then Some (Inherited name) else None)"

text \<open>
  \<^verbatim>\<open>String.prototype.replace\<close> calls a function given as replacement with \<^verbatim>\<open>this\<close>
  undefined and the matched text as first argument, and converts the result to a
  string. For the functions of \<^verbatim>\<open>Object.prototype\<close>: \<^verbatim>\<open>constructor\<close> (\<^verbatim>\<open>Object\<close>) wraps
  the matched text, which converts back to it; \<^verbatim>\<open>toString\<close> answers for the undefined
  \<^verbatim>\<open>this\<close>; \<^verbatim>\<open>isPrototypeOf\<close> returns false for an argument that is no object; every
  other one converts \<^verbatim>\<open>this\<close> to an object first and throws.
\<close>

definition call_inherited :: "string \<Rightarrow> string \<Rightarrow> js_error + string" where
  "call_inherited m matched =
     (if m = ''constructor'' then Inr matched
      else if m = ''toString'' then Inr ''[object Undefined]''
      else if m = ''isPrototypeOf'' then Inr ''false''
      else Inl TypeError)"

text \<open>
  \<^verbatim>\<open>s.replace(pat, value)\<close> for a string pattern and a value read from an object. An
  own string is the replacement text. \<^verbatim>\<open>Object.prototype\<close>, which \<^verbatim>\<open>__proto__\<close> yields,
  is not callable and is converted to the text \<^verbatim>\<open>[object Object]\<close>. A function is
  called only when the pattern occurs, and its result is inserted as it is.
\<close>

definition String_replace_value :: "string \<Rightarrow> string \<Rightarrow> string property \<Rightarrow> js_error + string" where
  "String_replace_value s pat v =
     (case v of
        Own rep \<Rightarrow> Inr (String_replace s pat rep)
      | Inherited m \<Rightarrow>
          if m = ''__proto__'' then Inr (String_replace s pat ''[object Object]'')
          else
            (case indexOf s pat of
               None \<Rightarrow> Inr s
             | Some pos \<Rightarrow>
                 (case call_inherited m pat of
                    Inl e \<Rightarrow> Inl e
                  | Inr rep \<Rightarrow> Inr (take pos s @ rep @ drop (pos + length pat) s))))"

section \<open>Path resolution: \<^verbatim>\<open>rewritePath\<close>\<close>

text \<open>
  What \<^verbatim>\<open>rewritePath\<close> reads from its surroundings: the own properties of the alias
  table \<^verbatim>\<open>dynImportPaths\<close> (strings), the global \<^verbatim>\<open>SITE_NONCE\<close> (\<open>None\<close> when it is
  undefined), \<^verbatim>\<open>window.location.search\<close>, and \<^verbatim>\<open>window.crypto.randomUUID\<close>: \<open>None\<close> when
  the page has no such function (it exists in secure contexts only), otherwise the value
  the call returns.
\<close>

record config =
  dynImportPaths :: "(string \<times> string) list"
  SITE_NONCE :: "string option"
  location_search :: string
  randomUUID :: "string option"

text \<open>
  The regular expression \<^verbatim>\<open>/^%(.*?)%/gi\<close>, executed once on a fresh object: the text
  starts with \<^verbatim>\<open>%\<close> and the shortest run of characters other than line terminators
  up to the next \<^verbatim>\<open>%\<close> is the group. The result is the pair of \<^verbatim>\<open>customPath[0]\<close> and
  \<^verbatim>\<open>customPath[1]\<close>.
\<close>

definition lineTerminator :: "char \<Rightarrow> bool" where
  "lineTerminator c = (c = CHR 0x0A \<or> c = CHR 0x0D)"

definition customPath_exec :: "string \<Rightarrow> (string \<times> string) option" where
  "customPath_exec uri =
     (case uri of
        [] \<Rightarrow> None
      | c # rest \<Rightarrow>
          if c \<noteq> CHR ''%'' then None
          else
            (let name = takeWhile (\<lambda>x. x \<noteq> CHR ''%'' \<and> \<not> lineTerminator x) rest in
             case drop (length name) rest of
               [] \<Rightarrow> None
             | d # _ \<Rightarrow>
                 if d = CHR ''%'' then Some (CHR ''%'' # name @ ''%'', name) else None))"

text \<open>
  Truthiness of what the table yields: an own string is truthy when it is not empty,
  an inherited member always.
\<close>

definition truthy :: "string property \<Rightarrow> bool" where
  "truthy v = (case v of Own p \<Rightarrow> p \<noteq> [] | Inherited m \<Rightarrow> True)"

text \<open>
  The test \<^verbatim>\<open>customPath && dynImportPaths[customPath[1]]\<close> of line 40: the expression
  matched and the table yields a truthy value under the group, an own string or a
  member inherited from \<^verbatim>\<open>Object.prototype\<close>. The result is \<^verbatim>\<open>customPath[0]\<close> with the
  value found.
\<close>

definition customPath_value :: "config \<Rightarrow> string \<Rightarrow> (string \<times> string property) option" where
  "customPath_value cfg uri =
     (case customPath_exec uri of
        None \<Rightarrow> None
      | Some (tok, name) \<Rightarrow>
          (case object_get (dynImportPaths cfg) name of
             None \<Rightarrow> None
           | Some v \<Rightarrow> if truthy v then Some (tok, v) else None))"

text \<open>
  The case of that test in which the value found is an own entry of the table, a
  registered prefix: the result is \<^verbatim>\<open>customPath[0]\<close> with the prefix.
\<close>

definition customPath_registered :: "config \<Rightarrow> string \<Rightarrow> (string \<times> string) option" where
  "customPath_registered cfg uri =
     (case customPath_value cfg uri of
        None \<Rightarrow> None
      | Some (tok, v) \<Rightarrow> (case v of Own p \<Rightarrow> Some (tok, p) | Inherited m \<Rightarrow> None))"

text \<open>
  The values of the variables \<^verbatim>\<open>uri\<close> and \<^verbatim>\<open>params\<close> when line 50 is reached, or the
  exception thrown before: by the replacement of line 41, or by line 48 when the debug
  flag is set and \<^verbatim>\<open>window.crypto.randomUUID\<close> is no function.
\<close>

definition rewritePath_vars ::
  "config \<Rightarrow> string \<Rightarrow> js_error + string \<times> (string \<times> string) list" where
  "rewritePath_vars cfg uri0 =
     (let params0 = [] in
      case (case customPath_value cfg uri0 of
              Some (tok, v) \<Rightarrow>
                (case String_replace_value uri0 (tok @ ''/'') v of
                   Inl e \<Rightarrow> Inl e
                 | Inr uri \<Rightarrow> Inr (uri, params0))
            | None \<Rightarrow>
                Inr (String_replace uri0 ''./'' ''./../'',
                     (case SITE_NONCE cfg of
                        Some n \<Rightarrow> params0 @ [(''nonce'', n)]
                      | None \<Rightarrow> params0)))
      of
        Inl e \<Rightarrow> Inl e
      | Inr (uri, params) \<Rightarrow>
          if String_includes (location_search cfg) ''debug''
          then (case randomUUID cfg of
                  None \<Rightarrow> Inl TypeError
                | Some u \<Rightarrow> Inr (uri, params @ [(''debug'', ''true''), (''random'', u)]))
          else Inr (uri, params))"

text \<open>Line 50: the string returned, unless an exception was thrown before.\<close>

definition rewritePath :: "config \<Rightarrow> string \<Rightarrow> js_error + string" where
  "rewritePath cfg uri0 =
     (case rewritePath_vars cfg uri0 of
        Inl e \<Rightarrow> Inl e
      | Inr (uri, params) \<Rightarrow> Inr (uri @ ''?'' @ URLSearchParams_toString params))"

text \<open>The serialisation of the two parameters that lines 46 to 49 add in debug mode.\<close>

definition debug_query :: "config \<Rightarrow> string" where
  "debug_query cfg =
     (if String_includes (location_search cfg) ''debug''
      then (case randomUUID cfg of
              Some u \<Rightarrow> ''debug=true&random='' @ urlencode u
            | None \<Rightarrow> [])
      else [])"

text \<open>
  For comparison only, an appending that merges with a query already present in the
  address: the separator is \<^verbatim>\<open>&\<close> when the address holds a \<^verbatim>\<open>?\<close> already.
\<close>

definition merged_query :: "string \<Rightarrow> string \<Rightarrow> string" where
  "merged_query uri q = uri @ (if CHR ''?'' \<in> set uri then ''&'' else ''?'') @ q"

subsection \<open>Example configurations\<close>

definition example_config :: config where
  "example_config =
     \<lparr>dynImportPaths = [(''assets'', ''https://example.com/modules/'')],
      SITE_NONCE = Some ''abc'',
      location_search = ''?debug=1'',
      randomUUID = Some ''123e4567-e89b-42d3-a456-426614174000''\<rparr>"

definition source_config :: config where
  "source_config =
     \<lparr>dynImportPaths = [(''assets'', ''https://code.hnldesign.nl/js-modules/'')],
      SITE_NONCE = Some ''n'',
      location_search = [],
      randomUUID = Some ''123e4567-e89b-42d3-a456-426614174000''\<rparr>"

section \<open>The importer: \<^verbatim>\<open>dynImports\<close>\<close>

text \<open>
  \<^verbatim>\<open>dynImports\<close> runs on one event loop: the body of the scanner's callback runs first,
  and every later piece of its code runs as the reaction to something the surroundings
  do. The state below holds the variables these pieces share, and one \<open>event\<close> stands
  for each thing the surroundings can do.
\<close>

type_synonym element = nat

text \<open>
  A module namespace as far as the importer reads it: \<^verbatim>\<open>module.NAME\<close> (\<open>None\<close> when
  undefined) and \<^verbatim>\<open>module.init\<close> (\<open>None\<close> when it is not a function; otherwise what
  the call on the elements does: \<open>None\<close> when it returns, \<open>Some err\<close> when it throws
  \<open>err\<close>).
\<close>

record module_namespace =
  module_NAME :: "string option"
  module_init :: "(element list \<Rightarrow> string option) option"

text \<open>The messages of lines 73, 77, 81, 92, 93, 107, 112 and 116.\<close>

datatype message =
    Importing string
  | Imported
  | Initializing nat
  | AllFinished
  | FoundModules
  | VisibleLoading
  | ImportedLazy
  | InitializingLazy nat

datatype log_entry = LogInfo string message | LogError string string

definition NAME :: string where
  "NAME = ''dynImports''"

text \<open>
  One call of \<^verbatim>\<open>import(path)\<close> with the promise chain hung on it: the chain of lines
  75 to 98 (\<open>Eager\<close>) or that of lines 110 to 126 (\<open>Lazy\<close>), the variables \<^verbatim>\<open>key\<close>,
  \<^verbatim>\<open>elements\<close> and \<^verbatim>\<open>path\<close> its handlers close over, and how far the chain has run:
  \<open>Pending\<close> until the promise settles, \<open>Settled\<close> while the \<^verbatim>\<open>finally\<close> reaction of
  an eager chain is still to run, \<open>Done\<close> when no reaction is left.
\<close>

datatype chain = Eager | Lazy

datatype progress = Pending | Settled | Done

record load =
  load_chain :: chain
  load_key :: string
  load_elements :: "element list"
  load_path :: string
  load_progress :: progress

text \<open>
  The shared variables: the counter \<^verbatim>\<open>c\<close> of line 68, the object
  \<^verbatim>\<open>deferredModules\<close>, the \<^verbatim>\<open>docShift\<close> listeners (one \<^verbatim>\<open>watchModules\<close> closure per
  deferred key, named by its key), the calls of \<^verbatim>\<open>isVisible\<close> whose callback has not run
  yet, the runs of \<^verbatim>\<open>watchModules\<close>, the imports issued, the calls of \<^verbatim>\<open>init\<close>, the log,
  the number of calls of \<^verbatim>\<open>callback\<close> and of \<^verbatim>\<open>rewritePath\<close>, and the exceptions that
  left a piece of the importer's code uncaught.
\<close>

record state =
  counter_c :: int
  deferredModules :: "string \<rightharpoonup> element list"
  listeners :: "string list"
  watches :: "(string \<times> element) list"
  watchModules_runs :: "string list"
  loads :: "load list"
  init_calls :: "(string \<times> element list) list"
  logged :: "log_entry list"
  callback_calls :: nat
  rewritePath_calls :: nat
  uncaught :: "js_error list"

text \<open>
  Modelled from the spec: \<^verbatim>\<open>domScanner\<close> (\<^verbatim>\<open>hnl.domscanner.mjs\<close>) is not part of the
  sources. It calls back once with the eager mapping, the deferred mapping and a total
  count; they are taken as parameters of a run, the mappings as lists of entries in
  the order \<^verbatim>\<open>objForEach\<close> visits them. A run also fixes what the \<open>n\<close>-th call of
  \<^verbatim>\<open>rewritePath\<close> reads from its surroundings, and whether \<^verbatim>\<open>callback\<close> is a function.
\<close>

record run =
  surroundings :: "nat \<Rightarrow> config"
  modules :: "(string \<times> element list) list"
  deferred :: "(string \<times> element list) list"
  totals :: int
  callback_given :: bool

definition call_rewritePath :: "run \<Rightarrow> state \<Rightarrow> string \<Rightarrow> (js_error + string) \<times> state" where
  "call_rewritePath r s k =
     (rewritePath (surroundings r (rewritePath_calls s)) k,
      s\<lparr>rewritePath_calls := Suc (rewritePath_calls s)\<rparr>)"

text \<open>
  Modelled from the spec: \<^verbatim>\<open>hnlLogger\<close> (\<^verbatim>\<open>hnl.logger.mjs\<close>) is not part of the sources.
  It takes a label and a message or an error, only records them, and never throws.
\<close>

definition hnlLogger :: "log_entry \<Rightarrow> state \<Rightarrow> state" where
  "hnlLogger entry s = s\<lparr>logged := logged s @ [entry]\<rparr>"

text \<open>
  The host's \<^verbatim>\<open>import(path)\<close> returns a pending promise; the promise settles later, as
  an event.
\<close>

definition import_call :: "chain \<Rightarrow> string \<Rightarrow> element list \<Rightarrow> string \<Rightarrow> state \<Rightarrow> state" where
  "import_call ch k els path s =
     s\<lparr>loads := loads s @
        [\<lparr>load_chain = ch, load_key = k, load_elements = els, load_path = path,
          load_progress = Pending\<rparr>]\<rparr>"

text \<open>
  Lines 72 to 75, for one entry of \<^verbatim>\<open>modules\<close>: the exception \<^verbatim>\<open>rewritePath\<close> throws, if
  any, and the state.
\<close>

definition import_eager ::
  "run \<Rightarrow> state \<Rightarrow> string \<times> element list \<Rightarrow> js_error option \<times> state" where
  "import_eager r s entry =
     (case entry of (k, els) \<Rightarrow>
        (case call_rewritePath r s k of
           (Inl e, s1) \<Rightarrow> (Some e, s1)
         | (Inr path, s1) \<Rightarrow>
             (None,
              import_call Eager k els path
                (hnlLogger (LogInfo NAME (Importing (takeWhile (\<lambda>x. x \<noteq> CHR ''?'') path)))
                   s1))))"

text \<open>
  Modelled from the spec: \<^verbatim>\<open>objForEach\<close> (\<^verbatim>\<open>hnl.helpers.mjs\<close>) is not part of the
  sources. It calls the function given for every own entry of the object, in order,
  and does not catch what the function throws: the loop of lines 71 to 99 ends at the
  first exception.
\<close>

fun import_modules ::
  "run \<Rightarrow> state \<Rightarrow> (string \<times> element list) list \<Rightarrow> js_error option \<times> state" where
  "import_modules r s [] = (None, s)"
| "import_modules r s (entry # entries) =
     (case import_eager r s entry of
        (Some e, s1) \<Rightarrow> (Some e, s1)
      | (None, s1) \<Rightarrow> import_modules r s1 entries)"

text \<open>
  The body of the scanner's callback, lines 68 to 135: the counter is set, every eager
  entry is imported, and one \<^verbatim>\<open>watchModules\<close> per deferred entry is bound to
  \<^verbatim>\<open>docShift\<close>. An exception of the first loop leaves the callback: the entries after
  it are not imported and nothing is bound.
\<close>

definition dynImports :: "run \<Rightarrow> state" where
  "dynImports r =
     (let s0 = \<lparr>counter_c = totals r, deferredModules = map_of (deferred r),
                listeners = [], watches = [], watchModules_runs = [], loads = [],
                init_calls = [], logged = [], callback_calls = 0, rewritePath_calls = 0,
                uncaught = []\<rparr>
      in case import_modules r s0 (modules r) of
           (Some e, s1) \<Rightarrow> s1\<lparr>uncaught := uncaught s1 @ [e]\<rparr>
         | (None, s1) \<Rightarrow> s1\<lparr>listeners := map fst (deferred r)\<rparr>)"

text \<open>\<^verbatim>\<open>key.split('/').splice(-1)\<close>: the text after the last \<^verbatim>\<open>/\<close>.\<close>

definition lastSegment :: "string \<Rightarrow> string" where
  "lastSegment k = rev (takeWhile (\<lambda>x. x \<noteq> CHR ''/'') (rev k))"

text \<open>
  Lines 78 to 86 and 113 to 121: when \<^verbatim>\<open>module.init\<close> is a function it is announced
  and called on the elements inside \<^verbatim>\<open>try\<close>; what it throws is caught and logged.
\<close>

definition call_init :: "string \<Rightarrow> message \<Rightarrow> load \<Rightarrow> module_namespace \<Rightarrow> state \<Rightarrow> state" where
  "call_init name announce l m s =
     (case module_init m of
        None \<Rightarrow> s
      | Some f \<Rightarrow>
          (let s1 = hnlLogger (LogInfo name announce) s;
               s2 = s1\<lparr>init_calls := init_calls s1 @ [(load_key l, load_elements l)]\<rparr>
           in case f (load_elements l) of
                None \<Rightarrow> s2
              | Some err \<Rightarrow> hnlLogger (LogError name err) s2))"

text \<open>The handler given to \<^verbatim>\<open>then\<close>, lines 75 to 88.\<close>

definition eager_then :: "load \<Rightarrow> module_namespace \<Rightarrow> state \<Rightarrow> state" where
  "eager_then l m s =
     (let name = (case module_NAME m of Some n \<Rightarrow> n | None \<Rightarrow> lastSegment (load_key l));
          s1 = hnlLogger (LogInfo name Imported) s;
          s2 = call_init name (Initializing (length (load_elements l))) l m s1
      in s2\<lparr>counter_c := counter_c s2 - 1\<rparr>)"

text \<open>The handler given to \<^verbatim>\<open>catch\<close>, lines 88 to 90.\<close>

definition eager_catch :: "string \<Rightarrow> state \<Rightarrow> state" where
  "eager_catch err s = hnlLogger (LogError NAME err) s"

text \<open>The handler given to \<^verbatim>\<open>finally\<close>, lines 90 to 98.\<close>

definition eager_finally :: "run \<Rightarrow> state \<Rightarrow> state" where
  "eager_finally r s =
     (if counter_c s = 0
      then (let s1 = hnlLogger (LogInfo NAME FoundModules) (hnlLogger (LogInfo NAME AllFinished) s)
            in if callback_given r then s1\<lparr>callback_calls := Suc (callback_calls s1)\<rparr> else s1)
      else s)"

text \<open>The handlers of the lazy chain, lines 110 to 124 and 124 to 126.\<close>

definition lazy_then :: "load \<Rightarrow> module_namespace \<Rightarrow> state \<Rightarrow> state" where
  "lazy_then l m s =
     (let name = (case module_NAME m of
                    Some n \<Rightarrow> if n = [] then lastSegment (load_key l) else n
                  | None \<Rightarrow> lastSegment (load_key l));
          s1 = hnlLogger (LogInfo name ImportedLazy) s;
          s2 = call_init name (InitializingLazy (length (load_elements l))) l m s1
      in s2\<lparr>deferredModules := (deferredModules s2)(load_key l := None)\<rparr>)"

definition lazy_catch :: "string \<Rightarrow> state \<Rightarrow> state" where
  "lazy_catch err s = hnlLogger (LogError NAME err) s"

text \<open>
  Modelled from the spec: \<^verbatim>\<open>isVisible\<close> (\<^verbatim>\<open>hnl.helpers.mjs\<close>) is not part of the
  sources. \<^verbatim>\<open>isVisible(element, onVisible)\<close> calls \<^verbatim>\<open>onVisible\<close> once when the element
  becomes visible, and not at all when it does not. A call is recorded as a watch; the
  callback of a watch runs as the event \<open>Visible\<close>, in the same dispatch or later.

  \<^verbatim>\<open>watchModules\<close>, lines 103 to 132, for the key \<open>k\<close> and the elements its closure
  holds: every element is handed to \<^verbatim>\<open>isVisible\<close>.
\<close>

definition watchModules :: "run \<Rightarrow> string \<Rightarrow> state \<Rightarrow> state" where
  "watchModules r k s =
     (case map_of (deferred r) k of
        None \<Rightarrow> s
      | Some els \<Rightarrow>
          s\<lparr>watchModules_runs := watchModules_runs s @ [k],
            watches := watches s @ map (Pair k) els\<rparr>)"

text \<open>
  The guard \<^verbatim>\<open>deferredModules[key]\<close> of line 106: an own entry (an array, always
  truthy), or else a member inherited from \<^verbatim>\<open>Object.prototype\<close>.
\<close>

definition deferredModules_guard :: "state \<Rightarrow> string \<Rightarrow> bool" where
  "deferredModules_guard s k =
     (case deferredModules s k of
        Some els \<Rightarrow> True
      | None \<Rightarrow> k \<in> set Object_prototype)"

text \<open>\<^verbatim>\<open>eventHandler.removeListener('docShift', watchModules)\<close>, line 129.\<close>

definition removeListener :: "string \<Rightarrow> state \<Rightarrow> state" where
  "removeListener k s = s\<lparr>listeners := removeAll k (listeners s)\<rparr>"

text \<open>
  The callback given to \<^verbatim>\<open>isVisible\<close>, lines 105 to 130, with the variables \<^verbatim>\<open>key\<close> and
  \<^verbatim>\<open>elements\<close> of its closure. Under the guard the start is logged, the path is
  resolved and the module is imported; then, guard or not, \<^verbatim>\<open>watchModules\<close> is removed
  from the \<^verbatim>\<open>docShift\<close> listeners. Nothing catches an exception of \<^verbatim>\<open>rewritePath\<close>
  (line 108): it leaves the callback before the import and before line 129.
\<close>

definition onVisible :: "run \<Rightarrow> string \<Rightarrow> element list \<Rightarrow> state \<Rightarrow> state" where
  "onVisible r k els s =
     (if deferredModules_guard s k
      then (case call_rewritePath r (hnlLogger (LogInfo NAME VisibleLoading) s) k of
              (Inl e, s1) \<Rightarrow> s1\<lparr>uncaught := uncaught s1 @ [e]\<rparr>
            | (Inr path, s1) \<Rightarrow> removeListener k (import_call Lazy k els path s1))
      else removeListener k s)"

text \<open>
  What the surroundings do: the promise of the \<open>i\<close>-th import is fulfilled with a
  module namespace or rejected with an error (the reaction given to \<^verbatim>\<open>then\<close> or to
  \<^verbatim>\<open>catch\<close> runs); the \<^verbatim>\<open>finally\<close> reaction of the \<open>i\<close>-th import runs; the event bus
  broadcasts \<^verbatim>\<open>docShift\<close>; \<^verbatim>\<open>isVisible\<close> calls back for an element of a group.
\<close>

datatype event =
    Fulfilled nat module_namespace
  | Rejected nat string
  | Finally nat
  | DocShift
  | Visible string element

definition set_progress :: "nat \<Rightarrow> progress \<Rightarrow> state \<Rightarrow> state" where
  "set_progress i p s = s\<lparr>loads := (loads s)[i := (loads s ! i)\<lparr>load_progress := p\<rparr>]\<rparr>"

definition awaiting :: "state \<Rightarrow> nat \<Rightarrow> chain \<Rightarrow> progress \<Rightarrow> bool" where
  "awaiting s i ch p =
     (i < length (loads s) \<and> load_chain (loads s ! i) = ch \<and> load_progress (loads s ! i) = p)"

text \<open>
  Modelled from the spec: \<^verbatim>\<open>eventHandler\<close> (\<^verbatim>\<open>hnl.eventhandler.mjs\<close>) is not part of the
  sources. \<^verbatim>\<open>addListener\<close> subscribes a handler to a named signal, \<^verbatim>\<open>removeListener\<close>
  unsubscribes it, and a broadcast runs the handlers subscribed when it starts.

  One step of the event loop. A promise settles once and its reactions run in the
  order of the chain, so an event that does not fit the progress of its import, and a
  callback for a watch that does not exist, change nothing.
\<close>

fun step :: "run \<Rightarrow> state \<Rightarrow> event \<Rightarrow> state" where
  "step r s (Fulfilled i m) =
     (if awaiting s i Eager Pending then set_progress i Settled (eager_then (loads s ! i) m s)
      else if awaiting s i Lazy Pending then set_progress i Done (lazy_then (loads s ! i) m s)
      else s)"
| "step r s (Rejected i err) =
     (if awaiting s i Eager Pending then set_progress i Settled (eager_catch err s)
      else if awaiting s i Lazy Pending then set_progress i Done (lazy_catch err s)
      else s)"
| "step r s (Finally i) =
     (if awaiting s i Eager Settled then set_progress i Done (eager_finally r s) else s)"
| "step r s DocShift = foldl (\<lambda>s' k. watchModules r k s') s (listeners s)"
| "step r s (Visible k el) =
     (if (k, el) \<in> set (watches s)
      then (case map_of (deferred r) k of
              Some els \<Rightarrow> onVisible r k els (s\<lparr>watches := remove1 (k, el) (watches s)\<rparr>)
            | None \<Rightarrow> s)
      else s)"

definition run_events :: "run \<Rightarrow> event list \<Rightarrow> state" where
  "run_events r evs = foldl (step r) (dynImports r) evs"

subsection \<open>Example runs\<close>

definition one_eager :: run where
  "one_eager =
     \<lparr>surroundings = (\<lambda>_. source_config), modules = [(''./a.mjs'', [0])], deferred = [],
      totals = 1, callback_given = True\<rparr>"

definition two_eager :: run where
  "two_eager =
     \<lparr>surroundings = (\<lambda>_. source_config),
      modules = [(''./a.mjs'', [0]), (''%assets%/b.mjs'', [1, 2])], deferred = [],
      totals = 2, callback_given = True\<rparr>"

definition one_deferred :: run where
  "one_deferred =
     \<lparr>surroundings = (\<lambda>_. source_config), modules = [],
      deferred = [(''./lazy.mjs'', [1, 2])], totals = 0, callback_given = True\<rparr>"

definition inherited_name_deferred :: run where
  "inherited_name_deferred =
     \<lparr>surroundings = (\<lambda>_. source_config), modules = [],
      deferred = [(''%hasOwnProperty%/x.mjs'', [1])], totals = 0, callback_given = True\<rparr>"

definition insecure_debug_config :: config where
  "insecure_debug_config =
     \<lparr>dynImportPaths = [(''assets'', ''https://code.hnldesign.nl/js-modules/'')],
      SITE_NONCE = None,
      location_search = ''?debug'',
      randomUUID = None\<rparr>"

definition insecure_debug_run :: run where
  "insecure_debug_run =
     \<lparr>surroundings = (\<lambda>_. insecure_debug_config),
      modules = [(''./a.mjs'', [0]), (''./b.mjs'', [1])],
      deferred = [(''./lazy.mjs'', [2])], totals = 2, callback_given = True\<rparr>"

definition insecure_debug_deferred :: run where
  "insecure_debug_deferred =
     \<lparr>surroundings = (\<lambda>_. insecure_debug_config), modules = [],
      deferred = [(''./lazy.mjs'', [2])], totals = 0, callback_given = True\<rparr>"

definition throwing_module :: module_namespace where
  "throwing_module = \<lparr>module_NAME = Some ''A'', module_init = Some (\<lambda>_. Some ''boom'')\<rparr>"

definition plain_module :: module_namespace where
  "plain_module = \<lparr>module_NAME = None, module_init = Some (\<lambda>_. None)\<rparr>"

section \<open>Properties of the string operations\<close>

lemma indexOf_at_front: "pat \<noteq> [] \<Longrightarrow> indexOf (pat @ rest) pat = Some 0"
  by (cases pat) simp_all

lemma indexOf_Some_prefix: "indexOf s pat = Some pos \<Longrightarrow> prefix pat (drop pos s)"
proof (induction s arbitrary: pos)
  case Nil
  then show ?case by (simp split: if_splits)
next
  case (Cons c cs)
  show ?case
  proof (cases "prefix pat (c # cs)")
    case True
    with Cons.prems show ?thesis by simp
  next
    case False
    with Cons.prems obtain q where q: "indexOf cs pat = Some q" "pos = Suc q"
      by auto
    with Cons.IH show ?thesis by simp
  qed
qed

lemma indexOf_Some_split:
  assumes "indexOf s pat = Some pos"
  shows "s = take pos s @ pat @ drop (pos + length pat) s"
proof -
  from indexOf_Some_prefix [OF assms] obtain r where r: "drop pos s = pat @ r"
    by (auto simp: prefix_def)
  have "drop (pos + length pat) s = drop (length pat) (drop pos s)"
    by (simp add: add.commute)
  with r have "drop (pos + length pat) s = r" by simp
  with r have "drop pos s = pat @ drop (pos + length pat) s" by simp
  then have "take pos s @ drop pos s = take pos s @ pat @ drop (pos + length pat) s"
    by simp
  then show ?thesis by simp
qed

lemma getSubstitution_plain:
  "CHR ''$'' \<notin> set rep \<Longrightarrow> getSubstitution matched str position rep = rep"
  by (induction matched str position rep rule: getSubstitution.induct) auto

lemma String_replace_at_front:
  assumes "pat \<noteq> []" and "CHR ''$'' \<notin> set rep"
  shows "String_replace (pat @ rest) pat rep = rep @ rest"
  using assms by (simp add: String_replace_def indexOf_at_front getSubstitution_plain)

lemma count_question_marks_rebase:
  "count_list (String_replace s ''./'' ''./../'') (CHR ''?'') = count_list s (CHR ''?'')"
proof (cases "indexOf s ''./''")
  case None
  then show ?thesis by (simp add: String_replace_def)
next
  case (Some pos)
  from indexOf_Some_split [OF Some]
  have "count_list s (CHR ''?'') =
      count_list (take pos s @ ''./'' @ drop (pos + length ''./'') s) (CHR ''?'')"
    by simp
  then show ?thesis using Some by (simp add: String_replace_def)
qed

subsection \<open>The serialiser never writes a question mark\<close>

lemma hexDigit_in: "hexDigit n \<in> set ''0123456789ABCDEF''"
  unfolding hexDigit_def by (rule nth_mem) simp

lemma hexDigit_not_question_mark: "hexDigit n \<noteq> CHR ''?''"
  using hexDigit_in [of n] by auto

lemma percentEncodeByte_no_question_mark: "CHR ''?'' \<notin> set (percentEncodeByte b)"
  using hexDigit_not_question_mark [of "b div 16"] hexDigit_not_question_mark [of b]
  by (auto simp: percentEncodeByte_def)

lemma urlencoded_keep_not_question_mark: "urlencoded_keep c \<Longrightarrow> c \<noteq> CHR ''?''"
  by (auto simp: urlencoded_keep_def)

lemma urlencodeChar_no_question_mark: "CHR ''?'' \<notin> set (urlencodeChar c)"
  using urlencoded_keep_not_question_mark [of c]
  by (auto simp: urlencodeChar_def Let_def percentEncodeByte_no_question_mark)

lemma urlencode_no_question_mark: "CHR ''?'' \<notin> set (urlencode s)"
  by (induction s) (auto simp: urlencode_def urlencodeChar_no_question_mark)

lemma toString_no_question_mark: "CHR ''?'' \<notin> set (URLSearchParams_toString ps)"
  by (induction ps rule: URLSearchParams_toString.induct)
    (auto simp: urlencode_no_question_mark)

lemma urlencode_parameter_names:
  "urlencode ''debug'' = ''debug''"
  "urlencode ''true'' = ''true''"
  "urlencode ''random'' = ''random''"
  "urlencode ''nonce'' = ''nonce''"
  by (simp_all add: urlencode_def urlencodeChar_def urlencoded_keep_def)

section \<open>Properties of \<^verbatim>\<open>rewritePath\<close>\<close>

lemma registered_value:
  "customPath_registered cfg key = Some (tok, p) \<Longrightarrow> customPath_value cfg key = Some (tok, Own p)"
  by (auto simp: customPath_registered_def split: option.splits property.splits)

lemma customPath_value_nonce_irrelevant:
  "customPath_value (cfg\<lparr>SITE_NONCE := n\<rparr>) key = customPath_value cfg key"
  by (simp add: customPath_value_def split: option.splits prod.splits)

lemma customPath_registered_nonce_irrelevant:
  "customPath_registered (cfg\<lparr>SITE_NONCE := n\<rparr>) key = customPath_registered cfg key"
  by (simp add: customPath_registered_def customPath_value_nonce_irrelevant)

text \<open>The replacement of line 41 throws only a \<^verbatim>\<open>TypeError\<close>, and only for a function
  of \<^verbatim>\<open>Object.prototype\<close> that rejects the call, when the pattern occurs.\<close>

lemma String_replace_value_throws:
  "(String_replace_value s pat v = Inl e) =
     (e = TypeError \<and>
      (\<exists>m. v = Inherited m \<and> m \<noteq> ''__proto__'' \<and> indexOf s pat \<noteq> None \<and>
           call_inherited m pat = Inl TypeError))"
  by (cases e) (auto simp: String_replace_value_def split: property.splits option.splits sum.splits)

lemma rewritePath_vars_alias:
  assumes "customPath_registered cfg key = Some (tok, p)"
  shows "rewritePath_vars cfg key =
    (if String_includes (location_search cfg) ''debug''
     then (case randomUUID cfg of
             None \<Rightarrow> Inl TypeError
           | Some u \<Rightarrow>
               Inr (String_replace key (tok @ ''/'') p, [(''debug'', ''true''), (''random'', u)]))
     else Inr (String_replace key (tok @ ''/'') p, []))"
  by (simp add: rewritePath_vars_def registered_value [OF assms] String_replace_value_def
      split: option.splits)

lemma rewritePath_vars_relative:
  assumes "customPath_value cfg key = None"
  shows "rewritePath_vars cfg key =
    (if String_includes (location_search cfg) ''debug''
     then (case randomUUID cfg of
             None \<Rightarrow> Inl TypeError
           | Some u \<Rightarrow>
               Inr (String_replace key ''./'' ''./../'',
                    (case SITE_NONCE cfg of Some n \<Rightarrow> [(''nonce'', n)] | None \<Rightarrow> []) @
                    [(''debug'', ''true''), (''random'', u)]))
     else Inr (String_replace key ''./'' ''./../'',
               (case SITE_NONCE cfg of Some n \<Rightarrow> [(''nonce'', n)] | None \<Rightarrow> [])))"
  using assms by (simp add: rewritePath_vars_def split: option.splits)

lemma rewritePath_alias:
  assumes "customPath_registered cfg key = Some (tok, p)"
  shows "rewritePath cfg key =
    (if String_includes (location_search cfg) ''debug'' \<and> randomUUID cfg = None
     then Inl TypeError
     else Inr (String_replace key (tok @ ''/'') p @ ''?'' @ debug_query cfg))"
  by (simp add: rewritePath_def rewritePath_vars_alias [OF assms] debug_query_def
      urlencode_parameter_names split: option.splits)

lemma example_config_registered:
  "customPath_registered example_config ''%assets%/foo.mjs'' =
     Some (''%assets%'', ''https://example.com/modules/'')"
  by (simp add: customPath_registered_def customPath_value_def customPath_exec_def
      object_get_def truthy_def example_config_def lineTerminator_def)

lemma example_config_debug:
  "String_includes (location_search example_config) ''debug''"
  "randomUUID example_config = Some ''123e4567-e89b-42d3-a456-426614174000''"
  by (simp_all add: example_config_def String_includes_def)

lemma example_config_debug_query:
  "debug_query example_config =
     ''debug=true&random=123e4567-e89b-42d3-a456-426614174000''"
  by (simp add: debug_query_def example_config_def String_includes_def urlencode_def
      urlencodeChar_def urlencoded_keep_def)

lemma source_config_relative:
  "customPath_value source_config ''./a.mjs?v=1'' = None"
  by (simp add: customPath_value_def customPath_exec_def)

lemma source_config_no_debug:
  "\<not> String_includes (location_search source_config) ''debug''"
  by (simp add: source_config_def String_includes_def)

text \<open>
  Keys whose token names a member of \<^verbatim>\<open>Object.prototype\<close> take the alias branch:
  \<^verbatim>\<open>toString\<close> puts its answer for the undefined \<^verbatim>\<open>this\<close> in the place of the token,
  \<^verbatim>\<open>constructor\<close> leaves the key as it is, \<^verbatim>\<open>hasOwnProperty\<close> throws; without the
  separator after the token nothing is called. A query in the key is not looked at: the
  first \<^verbatim>\<open>./\<close> is rebased also when it stands inside the query.
\<close>

lemma rewritePath_examples:
  "rewritePath source_config ''%toString%/x.mjs'' = Inr ''[object Undefined]x.mjs?''"
  "rewritePath source_config ''%constructor%/x.mjs'' = Inr ''%constructor%/x.mjs?''"
  "rewritePath source_config ''%__proto__%/x.mjs'' = Inr ''[object Object]x.mjs?''"
  "rewritePath source_config ''%hasOwnProperty%/x.mjs'' = Inl TypeError"
  "rewritePath source_config ''%hasOwnProperty%x.mjs'' = Inr ''%hasOwnProperty%x.mjs?''"
  "rewritePath source_config ''x.mjs?next=./y'' = Inr ''x.mjs?next=./../y?nonce=n''"
  by code_simp+

text \<open>
  Claim C8. A key that starts with a delimited alias token followed by the separator
  \<^verbatim>\<open>/\<close>, where the table holds a non-empty prefix of its own under the token's name,
  resolves to the registered prefix, then the rest of the key, then \<^verbatim>\<open>?\<close> and the query
  string (only the debug parameters, if any); the one exception is the debug mode of a
  page without \<^verbatim>\<open>crypto.randomUUID\<close>, where line 48 throws. The replacement text is
  read by \<^verbatim>\<open>String.prototype.replace\<close>, so the prefix is taken literally when it holds
  no dollar sign, as all addresses of the claim and of the source's table do. With the
  alias \<^verbatim>\<open>assets\<close> registered to \<^verbatim>\<open>https://example.com/modules/\<close> the key
  \<^verbatim>\<open>%assets%/foo.mjs\<close> resolves to \<^verbatim>\<open>https://example.com/modules/foo.mjs\<close> followed by
  its query string.
\<close>

theorem rewritePath_alias_substitution:
  assumes "customPath_registered cfg key = Some (tok, p)"
    and "key = tok @ ''/'' @ rest"
    and "CHR ''$'' \<notin> set p"
  shows "rewritePath cfg key =
    (if String_includes (location_search cfg) ''debug'' \<and> randomUUID cfg = None
     then Inl TypeError
     else Inr (p @ rest @ ''?'' @ debug_query cfg))"
proof -
  have "String_replace ((tok @ ''/'') @ rest) (tok @ ''/'') p = p @ rest"
    using assms(3) by (intro String_replace_at_front) simp_all
  then have "String_replace key (tok @ ''/'') p = p @ rest"
    unfolding assms(2) by simp
  then show ?thesis
    by (simp only: rewritePath_alias [OF assms(1)] append_assoc)
qed

theorem rewritePath_alias_substitution_witness:
  "rewritePath example_config ''%assets%/foo.mjs'' =
     Inr ''https://example.com/modules/foo.mjs?debug=true&random=123e4567-e89b-42d3-a456-426614174000''"
  using rewritePath_alias_substitution [OF example_config_registered, of "''foo.mjs''"]
  by (simp add: example_config_debug_query example_config_debug)

text \<open>
  Claim C9. What \<^verbatim>\<open>rewritePath\<close> returns is always the rewritten path, a \<^verbatim>\<open>?\<close>, and the
  serialised parameters. When no parameter is added (no debug flag, and either the
  alias branch is taken or no nonce is configured) the parameter list is empty and the
  result is the rewritten path followed by a bare \<^verbatim>\<open>?\<close>: the key with the first
  token and separator replaced on the alias branch, with the first \<^verbatim>\<open>./\<close> rebased
  otherwise. Nothing is returned only when the replacement of line 41 throws.
\<close>

theorem rewritePath_bare_question_mark:
  "rewritePath cfg key =
     (case rewritePath_vars cfg key of
        Inl e \<Rightarrow> Inl e
      | Inr (uri, params) \<Rightarrow> Inr (uri @ ''?'' @ URLSearchParams_toString params)) \<and>
   (\<not> String_includes (location_search cfg) ''debug'' \<and>
    (customPath_value cfg key \<noteq> None \<or> SITE_NONCE cfg = None) \<longrightarrow>
      rewritePath_vars cfg key =
        (case customPath_value cfg key of
           Some (tok, v) \<Rightarrow>
             (case String_replace_value key (tok @ ''/'') v of
                Inl e \<Rightarrow> Inl e
              | Inr uri \<Rightarrow> Inr (uri, []))
         | None \<Rightarrow> Inr (String_replace key ''./'' ''./../'', [])) \<and>
      rewritePath cfg key =
        (case customPath_value cfg key of
           Some (tok, v) \<Rightarrow>
             (case String_replace_value key (tok @ ''/'') v of
                Inl e \<Rightarrow> Inl e
              | Inr uri \<Rightarrow> Inr (uri @ ''?''))
         | None \<Rightarrow> Inr (String_replace key ''./'' ''./../'' @ ''?'')))"
proof -
  have split: "rewritePath cfg key =
     (case rewritePath_vars cfg key of
        Inl e \<Rightarrow> Inl e
      | Inr (uri, params) \<Rightarrow> Inr (uri @ ''?'' @ URLSearchParams_toString params))"
    by (simp add: rewritePath_def)
  show ?thesis
  proof (cases "customPath_value cfg key")
    case None
    then show ?thesis
      by (simp add: rewritePath_def rewritePath_vars_relative)
  next
    case (Some a)
    obtain tok v where "a = (tok, v)" by (cases a)
    with Some have val: "customPath_value cfg key = Some (tok, v)" by simp
    have "\<not> String_includes (location_search cfg) ''debug'' \<Longrightarrow>
        rewritePath_vars cfg key =
          (case String_replace_value key (tok @ ''/'') v of
             Inl e \<Rightarrow> Inl e
           | Inr uri \<Rightarrow> Inr (uri, []))"
      by (simp add: rewritePath_vars_def val split: sum.splits)
    with split val show ?thesis
      by (auto split: sum.splits)
  qed
qed

theorem rewritePath_bare_question_mark_witness:
  "\<not> String_includes (location_search (example_config\<lparr>location_search := []\<rparr>)) ''debug'' \<and>
   rewritePath (example_config\<lparr>location_search := []\<rparr>) ''%assets%/foo.mjs'' =
     Inr ''https://example.com/modules/foo.mjs?''"
proof -
  let ?cfg = "example_config\<lparr>location_search := []\<rparr>"
  have nodebug: "\<not> String_includes (location_search ?cfg) ''debug''"
    by (simp add: String_includes_def)
  have val: "customPath_value ?cfg ''%assets%/foo.mjs'' =
      Some (''%assets%'', Own ''https://example.com/modules/'')"
    by (simp add: customPath_value_def customPath_exec_def object_get_def truthy_def
        example_config_def lineTerminator_def)
  have "String_replace_value ''%assets%/foo.mjs'' (''%assets%'' @ ''/'')
      (Own ''https://example.com/modules/'') = Inr ''https://example.com/modules/foo.mjs''"
    by (simp add: String_replace_value_def String_replace_def)
  with nodebug val
    rewritePath_bare_question_mark [of ?cfg "''%assets%/foo.mjs''", THEN conjunct2]
  show ?thesis by simp
qed

text \<open>
  Claim C10. On the alias branch of a registered prefix no \<^verbatim>\<open>nonce\<close> parameter is
  appended: the parameter list holds no entry named \<^verbatim>\<open>nonce\<close>, the outcome is the same
  whatever \<^verbatim>\<open>SITE_NONCE\<close> is, and the result is the rewritten key, a \<^verbatim>\<open>?\<close> and at most
  the debug parameters (an exception only in the debug mode of a page without
  \<^verbatim>\<open>crypto.randomUUID\<close>).
\<close>

theorem rewritePath_alias_no_nonce:
  assumes "customPath_registered cfg key = Some (tok, p)"
  shows "(case rewritePath_vars cfg key of
            Inl e \<Rightarrow> True
          | Inr (uri, params) \<Rightarrow> ''nonce'' \<notin> fst ` set params) \<and>
         rewritePath (cfg\<lparr>SITE_NONCE := n\<rparr>) key = rewritePath cfg key \<and>
         rewritePath cfg key =
           (if String_includes (location_search cfg) ''debug'' \<and> randomUUID cfg = None
            then Inl TypeError
            else Inr (String_replace key (tok @ ''/'') p @ ''?'' @ debug_query cfg))"
proof -
  have reg: "customPath_registered (cfg\<lparr>SITE_NONCE := n\<rparr>) key = Some (tok, p)"
    using assms by (simp only: customPath_registered_nonce_irrelevant)
  have "debug_query (cfg\<lparr>SITE_NONCE := n\<rparr>) = debug_query cfg"
    by (simp add: debug_query_def)
  then have "rewritePath (cfg\<lparr>SITE_NONCE := n\<rparr>) key = rewritePath cfg key"
    by (simp add: rewritePath_alias [OF reg] rewritePath_alias [OF assms])
  moreover have "(case rewritePath_vars cfg key of
            Inl e \<Rightarrow> True
          | Inr (uri, params) \<Rightarrow> ''nonce'' \<notin> fst ` set params)"
    by (auto simp: rewritePath_vars_alias [OF assms] split: option.splits)
  ultimately show ?thesis
    by (simp only: rewritePath_alias [OF assms] simp_thms)
qed

theorem rewritePath_alias_no_nonce_witness:
  "SITE_NONCE example_config = Some ''abc'' \<and>
   rewritePath (example_config\<lparr>SITE_NONCE := None\<rparr>) ''%assets%/foo.mjs'' =
     rewritePath example_config ''%assets%/foo.mjs'' \<and>
   rewritePath example_config ''%assets%/foo.mjs'' =
     Inr ''https://example.com/modules/foo.mjs?debug=true&random=123e4567-e89b-42d3-a456-426614174000''"
  using rewritePath_alias_no_nonce [OF example_config_registered, of None]
  by (simp add: example_config_debug_query example_config_debug String_replace_def)
    (simp add: example_config_def)

text \<open>
  Claim C5, as stated, asks that the parameters are merged with a query the key
  already holds. They are not: the key \<^verbatim>\<open>./a.mjs?v=1\<close> with the nonce \<^verbatim>\<open>n\<close> resolves
  to an address with two question marks, where a merge would give
  \<^verbatim>\<open>./../a.mjs?v=1&nonce=n\<close>.
\<close>

theorem rewritePath_merge_counterexample:
  "rewritePath_vars source_config ''./a.mjs?v=1'' =
     Inr (''./../a.mjs?v=1'', [(''nonce'', ''n'')]) \<and>
   rewritePath source_config ''./a.mjs?v=1'' = Inr ''./../a.mjs?v=1?nonce=n'' \<and>
   merged_query ''./../a.mjs?v=1'' (URLSearchParams_toString [(''nonce'', ''n'')]) =
     ''./../a.mjs?v=1&nonce=n''"
  by code_simp

text \<open>
  Claim C5, amended. For every input key (a string value, which a call cannot change),
  whenever \<^verbatim>\<open>rewritePath\<close> returns, the result is a new string: the rewritten key (the
  key with the first occurrence of the token and its separator replaced by what the
  table yields on the alias branch, with the first \<^verbatim>\<open>./\<close> replaced by \<^verbatim>\<open>./../\<close> on
  the relative branch), one \<^verbatim>\<open>?\<close>, and the serialised parameters, which never hold a
  \<^verbatim>\<open>?\<close>. The \<^verbatim>\<open>?\<close> is appended whether or not the key holds a query already, so the
  parameters are not merged with query components of the key: on the relative branch
  the result has exactly one \<^verbatim>\<open>?\<close> more than the key. The first conjunct says when
  nothing is returned: exactly when line 41 or line 48 throws.
\<close>

theorem rewritePath_appends_query:
  "((\<exists>e. rewritePath cfg key = Inl e) =
      ((\<exists>tok v. customPath_value cfg key = Some (tok, v) \<and>
                String_replace_value key (tok @ ''/'') v = Inl TypeError) \<or>
       (String_includes (location_search cfg) ''debug'' \<and> randomUUID cfg = None))) \<and>
   (rewritePath cfg key = Inl TypeError \<or>
    (\<exists>uri params.
       rewritePath_vars cfg key = Inr (uri, params) \<and>
       rewritePath cfg key = Inr (uri @ ''?'' @ URLSearchParams_toString params) \<and>
       CHR ''?'' \<notin> set (URLSearchParams_toString params) \<and>
       (case customPath_value cfg key of
          Some (tok, v) \<Rightarrow> String_replace_value key (tok @ ''/'') v = Inr uri
        | None \<Rightarrow>
            uri = String_replace key ''./'' ''./../'' \<and>
            count_list (uri @ ''?'' @ URLSearchParams_toString params) (CHR ''?'') =
              Suc (count_list key (CHR ''?'')))))"
proof -
  have throws: "(\<exists>e. rewritePath cfg key = Inl e) =
      ((\<exists>tok v. customPath_value cfg key = Some (tok, v) \<and>
                String_replace_value key (tok @ ''/'') v = Inl TypeError) \<or>
       (String_includes (location_search cfg) ''debug'' \<and> randomUUID cfg = None))"
  proof (cases "customPath_value cfg key")
    case None
    then show ?thesis
      by (auto simp: rewritePath_def rewritePath_vars_relative split: option.splits)
  next
    case (Some a)
    obtain tok v where "a = (tok, v)" by (cases a)
    with Some have val: "customPath_value cfg key = Some (tok, v)" by simp
    show ?thesis
    proof (cases "String_replace_value key (tok @ ''/'') v")
      case (Inl e)
      then have "e = TypeError" by (cases e)
      with Inl val show ?thesis
        by (simp add: rewritePath_def rewritePath_vars_def)
    next
      case (Inr uri)
      with val show ?thesis
        by (auto simp: rewritePath_def rewritePath_vars_def split: option.splits)
    qed
  qed
  have returns: "rewritePath cfg key = Inl TypeError \<or>
    (\<exists>uri params.
       rewritePath_vars cfg key = Inr (uri, params) \<and>
       rewritePath cfg key = Inr (uri @ ''?'' @ URLSearchParams_toString params) \<and>
       CHR ''?'' \<notin> set (URLSearchParams_toString params) \<and>
       (case customPath_value cfg key of
          Some (tok, v) \<Rightarrow> String_replace_value key (tok @ ''/'') v = Inr uri
        | None \<Rightarrow>
            uri = String_replace key ''./'' ''./../'' \<and>
            count_list (uri @ ''?'' @ URLSearchParams_toString params) (CHR ''?'') =
              Suc (count_list key (CHR ''?''))))"
  proof (cases "rewritePath_vars cfg key")
    case (Inl e)
    then have "rewritePath cfg key = Inl TypeError"
      by (cases e) (simp add: rewritePath_def)
    then show ?thesis by simp
  next
    case (Inr a)
    obtain uri params where a: "a = (uri, params)" by (cases a)
    have res: "rewritePath cfg key = Inr (uri @ ''?'' @ URLSearchParams_toString params)"
      using Inr a by (simp add: rewritePath_def)
    have noq: "CHR ''?'' \<notin> set (URLSearchParams_toString params)"
      by (rule toString_no_question_mark)
    have "case customPath_value cfg key of
          Some (tok, v) \<Rightarrow> String_replace_value key (tok @ ''/'') v = Inr uri
        | None \<Rightarrow>
            uri = String_replace key ''./'' ''./../'' \<and>
            count_list (uri @ ''?'' @ URLSearchParams_toString params) (CHR ''?'') =
              Suc (count_list key (CHR ''?''))"
    proof (cases "customPath_value cfg key")
      case None
      with Inr a have "uri = String_replace key ''./'' ''./../''"
        by (auto simp: rewritePath_vars_relative split: if_splits option.splits)
      with None noq show ?thesis
        by (simp add: count_question_marks_rebase count_list_0_iff)
    next
      case (Some b)
      obtain tok v where "b = (tok, v)" by (cases b)
      with Some have val: "customPath_value cfg key = Some (tok, v)" by simp
      with Inr a have "String_replace_value key (tok @ ''/'') v = Inr uri"
        by (auto simp: rewritePath_vars_def split: sum.splits if_splits option.splits)
      with val show ?thesis by simp
    qed
    with Inr a res noq show ?thesis by blast
  qed
  from throws returns show ?thesis by (rule conjI)
qed

theorem rewritePath_appends_query_witness:
  "customPath_value source_config ''./a.mjs?v=1'' = None \<and>
   rewritePath source_config ''./a.mjs?v=1'' = Inr ''./../a.mjs?v=1?nonce=n'' \<and>
   count_list ''./../a.mjs?v=1?nonce=n'' (CHR ''?'') = Suc (count_list ''./a.mjs?v=1'' (CHR ''?''))"
proof -
  have res: "rewritePath source_config ''./a.mjs?v=1'' = Inr ''./../a.mjs?v=1?nonce=n''"
    by code_simp
  from rewritePath_appends_query [of source_config "''./a.mjs?v=1''", THEN conjunct2]
  obtain uri params where
    "rewritePath source_config ''./a.mjs?v=1'' =
       Inr (uri @ ''?'' @ URLSearchParams_toString params)"
    "case customPath_value source_config ''./a.mjs?v=1'' of
          Some (tok, v) \<Rightarrow> String_replace_value ''./a.mjs?v=1'' (tok @ ''/'') v = Inr uri
        | None \<Rightarrow>
            uri = String_replace ''./a.mjs?v=1'' ''./'' ''./../'' \<and>
            count_list (uri @ ''?'' @ URLSearchParams_toString params) (CHR ''?'') =
              Suc (count_list ''./a.mjs?v=1'' (CHR ''?''))"
    using res by auto
  with res source_config_relative show ?thesis by simp
qed

section \<open>Properties of the importer\<close>

lemmas handler_defs =
  hnlLogger_def import_call_def call_rewritePath_def call_init_def eager_then_def
  eager_catch_def eager_finally_def lazy_then_def lazy_catch_def set_progress_def
  removeListener_def

subsection \<open>What the handlers leave alone\<close>

text \<open>
  Whatever \<^verbatim>\<open>init\<close> does, returning or throwing, the \<^verbatim>\<open>then\<close> handler of an eager
  import decrements the counter once and calls nothing back.
\<close>

lemma eager_then_outcome:
  "counter_c (eager_then l m s) = counter_c s - 1 \<and>
   callback_calls (eager_then l m s) = callback_calls s \<and>
   loads (eager_then l m s) = loads s"
  by (simp add: handler_defs Let_def split: option.splits)

text \<open>A rejection changes neither the counter nor \<^verbatim>\<open>deferredModules\<close>.\<close>

lemma rejected_frame:
  "deferredModules (step r s (Rejected i err)) = deferredModules s"
  "watches (step r s (Rejected i err)) = watches s"
  "listeners (step r s (Rejected i err)) = listeners s"
  "rewritePath_calls (step r s (Rejected i err)) = rewritePath_calls s"
  "counter_c (step r s (Rejected i err)) = counter_c s"
  by (simp_all add: handler_defs)

lemma listeners_watchModules_fold:
  "listeners (foldl (\<lambda>s' k. watchModules r k s') s ks) = listeners s"
  by (induction ks arbitrary: s) (auto simp: watchModules_def split: option.splits)

lemma runs_watchModules_fold:
  "watchModules_runs (foldl (\<lambda>s' k. watchModules r k s') s ks) =
     watchModules_runs s @ filter (\<lambda>k. map_of (deferred r) k \<noteq> None) ks"
  by (induction ks arbitrary: s) (auto simp: watchModules_def split: option.splits)

lemma listeners_onVisible: "set (listeners (onVisible r k els s)) \<subseteq> set (listeners s)"
  by (auto simp: onVisible_def handler_defs split: sum.splits prod.splits)

lemma runs_onVisible: "watchModules_runs (onVisible r k els s) = watchModules_runs s"
  by (simp add: onVisible_def handler_defs split: sum.splits prod.splits)

text \<open>
  The callback reaches line 129 unless \<^verbatim>\<open>rewritePath\<close> throws: when the guard is false,
  or the path of the key is resolved, the handler of the key is unsubscribed.
\<close>

lemma onVisible_unsubscribes:
  assumes "\<not> deferredModules_guard s k \<or>
    (\<exists>path. rewritePath (surroundings r (rewritePath_calls s)) k = Inr path)"
  shows "k \<notin> set (listeners (onVisible r k els s))"
  using assms by (auto simp: onVisible_def handler_defs)

text \<open>No step subscribes a handler: the listeners only shrink.\<close>

lemma listeners_step: "set (listeners (step r s e)) \<subseteq> set (listeners s)"
proof (cases e)
  case (Fulfilled i m)
  then show ?thesis by (simp add: handler_defs Let_def split: option.splits)
next
  case (Rejected i err)
  then show ?thesis by (simp add: handler_defs)
next
  case (Finally i)
  then show ?thesis by (simp add: handler_defs Let_def)
next
  case DocShift
  then show ?thesis by (simp add: listeners_watchModules_fold)
next
  case (Visible k el)
  then show ?thesis
    using listeners_onVisible [of r k _ "s\<lparr>watches := remove1 (k, el) (watches s)\<rparr>"]
    by (auto split: option.splits)
qed

lemma runs_step:
  assumes "k \<notin> set (listeners s)"
  shows "count_list (watchModules_runs (step r s e)) k = count_list (watchModules_runs s) k"
proof (cases e)
  case (Fulfilled i m)
  then show ?thesis by (simp add: handler_defs Let_def split: option.splits)
next
  case (Rejected i err)
  then show ?thesis by (simp add: handler_defs)
next
  case (Finally i)
  then show ?thesis by (simp add: handler_defs Let_def)
next
  case DocShift
  have "count_list (filter (\<lambda>k. map_of (deferred r) k \<noteq> None) (listeners s)) k = 0"
    using assms by (simp add: count_list_0_iff)
  with DocShift show ?thesis by (simp add: runs_watchModules_fold)
next
  case (Visible k' el)
  then show ?thesis by (simp add: runs_onVisible split: option.splits)
qed

lemma unsubscribed_forever:
  assumes "k \<notin> set (listeners s)"
  shows "k \<notin> set (listeners (foldl (step r) s evs)) \<and>
         count_list (watchModules_runs (foldl (step r) s evs)) k =
           count_list (watchModules_runs s) k"
  using assms
proof (induction evs arbitrary: s)
  case Nil
  then show ?case by simp
next
  case (Cons e evs)
  from Cons.prems listeners_step [of r s e] have "k \<notin> set (listeners (step r s e))"
    by blast
  from Cons.IH [OF this] runs_step [OF Cons.prems, of r e] show ?case by simp
qed

text \<open>
  So for a key whose path is resolved when the callback of one of its elements runs,
  the handler is unsubscribed for good, whatever the loads do afterwards.
\<close>

lemma handler_unsubscribed_when_resolved:
  assumes "(k, el) \<in> set (watches s)"
    and "map_of (deferred r) k = Some els"
    and "rewritePath (surroundings r (rewritePath_calls s)) k = Inr path"
  shows "k \<notin> set (listeners (foldl (step r) (step r s (Visible k el)) evs)) \<and>
         count_list (watchModules_runs (foldl (step r) (step r s (Visible k el)) evs)) k =
           count_list (watchModules_runs s) k"
proof -
  let ?t = "s\<lparr>watches := remove1 (k, el) (watches s)\<rparr>"
  have step: "step r s (Visible k el) = onVisible r k els ?t"
    using assms(1,2) by simp
  have "k \<notin> set (listeners (onVisible r k els ?t))"
    using assms(3) by (intro onVisible_unsubscribes) simp
  from unsubscribed_forever [OF this, of r evs] show ?thesis
    unfolding step by (simp add: runs_onVisible)
qed

text \<open>
  When two imports are fulfilled before the \<^verbatim>\<open>finally\<close> reaction of either has run,
  both reactions find the counter at zero.
\<close>

lemma finally_reactions_interleaved:
  "callback_calls (run_events two_eager
     [Fulfilled 0 plain_module, Fulfilled 1 plain_module, Finally 0, Finally 1]) = 2"
  by code_simp

text \<open>
  In debug mode on a page without \<^verbatim>\<open>crypto.randomUUID\<close> every call of \<^verbatim>\<open>rewritePath\<close>
  throws at line 48: the first eager entry ends the scanner's callback, so that nothing
  is imported and no handler is bound; and a visibility callback leaves before line
  129, so that the handler of its group stays subscribed.
\<close>

lemma debug_without_randomUUID:
  "uncaught (dynImports insecure_debug_run) = [TypeError]"
  "loads (dynImports insecure_debug_run) = []"
  "listeners (dynImports insecure_debug_run) = []"
  "uncaught (run_events insecure_debug_deferred [DocShift, Visible ''./lazy.mjs'' 2]) =
     [TypeError]"
  "listeners (run_events insecure_debug_deferred [DocShift, Visible ''./lazy.mjs'' 2]) =
     [''./lazy.mjs'']"
  by code_simp+

subsection \<open>The eager path\<close>

text \<open>
  Claim C1 asks that the completion callback is called exactly once when every load has
  settled, a failed load counting like a successful one. Evaluated here: one eager
  entry, the scanner's total 1; the import is rejected and its \<^verbatim>\<open>finally\<close> reaction
  runs. The load has settled, the counter is still 1 and the callback was not called:
  the decrement of line 87 stands in the \<^verbatim>\<open>then\<close> handler, which a rejection skips.
\<close>

theorem dynImports_failed_load_no_completion:
  "map load_progress (loads (run_events one_eager [Rejected 0 ''404'', Finally 0])) = [Done] \<and>
   counter_c (run_events one_eager [Rejected 0 ''404'', Finally 0]) = 1 \<and>
   callback_calls (run_events one_eager [Rejected 0 ''404'', Finally 0]) = 0"
  by code_simp

text \<open>
  Claim C3 asks that the counter is decremented once for every settled eager load,
  failed or not. Evaluated here: two eager entries, the scanner's total 2. The
  rejection of the second import leaves the counter at 2; after both loads have
  settled, one fulfilled and one rejected, the counter is 1.
\<close>

theorem counter_kept_by_failed_load:
  "counter_c (dynImports two_eager) = 2 \<and>
   counter_c (run_events two_eager [Rejected 1 ''404'', Finally 1]) = 2 \<and>
   counter_c (run_events two_eager
     [Rejected 1 ''404'', Finally 1, Fulfilled 0 plain_module, Finally 0]) = 1 \<and>
   map load_progress (loads (run_events two_eager
     [Rejected 1 ''404'', Finally 1, Fulfilled 0 plain_module, Finally 0])) = [Done, Done]"
  by code_simp

text \<open>
  Claim C6 asks that, when an \<^verbatim>\<open>init\<close> throws, the completion callback still fires
  once after all sibling loads have settled. Evaluated here: two eager entries; the
  first module's \<^verbatim>\<open>init\<close> throws, the second import is rejected. The thrown error is
  caught and logged and the first load is counted, both loads have settled, and the
  callback was not called.
\<close>

theorem init_throw_with_failed_sibling:
  "logged (run_events two_eager
     [Fulfilled 0 throwing_module, Finally 0, Rejected 1 ''404'', Finally 1]) =
     [LogInfo NAME (Importing ''./../a.mjs''),
      LogInfo NAME (Importing ''https://code.hnldesign.nl/js-modules/b.mjs''),
      LogInfo ''A'' Imported, LogInfo ''A'' (Initializing 1), LogError ''A'' ''boom'',
      LogError NAME ''404''] \<and>
   counter_c (run_events two_eager
     [Fulfilled 0 throwing_module, Finally 0, Rejected 1 ''404'', Finally 1]) = 1 \<and>
   map load_progress (loads (run_events two_eager
     [Fulfilled 0 throwing_module, Finally 0, Rejected 1 ''404'', Finally 1])) = [Done, Done] \<and>
   callback_calls (run_events two_eager
     [Fulfilled 0 throwing_module, Finally 0, Rejected 1 ''404'', Finally 1]) = 0"
  by code_simp

subsection \<open>The lazy path\<close>

text \<open>
  Claim C2 asks for at most one load per deferred key. Evaluated here: one deferred
  key with two elements; after a \<^verbatim>\<open>docShift\<close> both elements are reported visible
  before any load has settled. Two imports of the key are pending and the key is still
  in \<^verbatim>\<open>deferredModules\<close>, which only the \<^verbatim>\<open>then\<close> handler of line 123 clears; when both
  are fulfilled, \<^verbatim>\<open>init\<close> is called twice.
\<close>

theorem two_visible_elements_two_loads:
  "map load_key (loads (run_events one_deferred
      [DocShift, Visible ''./lazy.mjs'' 1, Visible ''./lazy.mjs'' 2])) =
     [''./lazy.mjs'', ''./lazy.mjs''] \<and>
   map load_progress (loads (run_events one_deferred
      [DocShift, Visible ''./lazy.mjs'' 1, Visible ''./lazy.mjs'' 2])) = [Pending, Pending] \<and>
   deferredModules (run_events one_deferred
      [DocShift, Visible ''./lazy.mjs'' 1, Visible ''./lazy.mjs'' 2]) ''./lazy.mjs'' =
     Some [1, 2] \<and>
   init_calls (run_events one_deferred
      [DocShift, Visible ''./lazy.mjs'' 1, Visible ''./lazy.mjs'' 2,
       Fulfilled 0 plain_module, Fulfilled 1 plain_module]) =
     [(''./lazy.mjs'', [1, 2]), (''./lazy.mjs'', [1, 2])]"
  by code_simp

text \<open>
  Claim C4 asks that the key of a failed lazy load has left \<^verbatim>\<open>deferredModules\<close> by the
  time of the failure, so that the load is not attempted again. Evaluated here: one
  deferred key with two elements; the first element becomes visible, the import is
  issued and rejected. The load has settled and the key is still in
  \<^verbatim>\<open>deferredModules\<close>, which only the \<^verbatim>\<open>then\<close> handler of line 123 clears; when the
  callback for the second element runs after the failure, the guard of line 106 holds
  and a second import of the key is pending.
\<close>

theorem lazy_failure_key_still_registered:
  "deferredModules (run_events one_deferred
     [DocShift, Visible ''./lazy.mjs'' 1, Rejected 0 ''404'']) ''./lazy.mjs'' = Some [1, 2] \<and>
   map load_progress (loads (run_events one_deferred
     [DocShift, Visible ''./lazy.mjs'' 1, Rejected 0 ''404''])) = [Done] \<and>
   map load_key (loads (run_events one_deferred
     [DocShift, Visible ''./lazy.mjs'' 1, Rejected 0 ''404'', Visible ''./lazy.mjs'' 2])) =
     [''./lazy.mjs'', ''./lazy.mjs''] \<and>
   map load_progress (loads (run_events one_deferred
     [DocShift, Visible ''./lazy.mjs'' 1, Rejected 0 ''404'', Visible ''./lazy.mjs'' 2])) =
     [Done, Pending]"
  by code_simp

text \<open>
  Claim C7 asks that the group's \<^verbatim>\<open>docShift\<close> handler is unsubscribed the first time an
  element becomes visible, in every case, and never runs again. Evaluated here: one
  deferred key whose token names \<^verbatim>\<open>hasOwnProperty\<close>, with one element. The element
  becomes visible; under the guard \<^verbatim>\<open>rewritePath\<close> (line 108) throws at line 41, the
  exception leaves the callback, no import is issued and line 129 is not reached: the
  handler is still subscribed, and the next \<^verbatim>\<open>docShift\<close> runs it again.
\<close>

theorem handler_kept_when_rewritePath_throws:
  "uncaught (run_events inherited_name_deferred
     [DocShift, Visible ''%hasOwnProperty%/x.mjs'' 1]) = [TypeError] \<and>
   loads (run_events inherited_name_deferred
     [DocShift, Visible ''%hasOwnProperty%/x.mjs'' 1]) = [] \<and>
   listeners (run_events inherited_name_deferred
     [DocShift, Visible ''%hasOwnProperty%/x.mjs'' 1]) = [''%hasOwnProperty%/x.mjs''] \<and>
   watchModules_runs (run_events inherited_name_deferred
     [DocShift, Visible ''%hasOwnProperty%/x.mjs'' 1, DocShift]) =
     [''%hasOwnProperty%/x.mjs'', ''%hasOwnProperty%/x.mjs'']"
  by code_simp

end
